theory Spec2Isabelle
  imports Complex_Main
begin

section \<open>JavaScript primitives used by the booking modal\<close>

text \<open>
  The booking modal (\<^verbatim>\<open>BookingModal\<close>, file \<^verbatim>\<open>src/unnamed/part_000\<close>) is a React component.
  Its business logic is embedded here as pure functions over an explicit component state.
  Minute counts and coin counts are unbounded integers, so the rounding of numbers beyond
  \<open>2 ^ 53\<close> is not modelled for them. A price is the real number that a finite binary64
  value denotes, and the arithmetic on prices rounds as binary64 arithmetic does. Strings
  are lists of 8-bit characters; of the white space of the language only the ASCII
  characters are modelled. For \<^verbatim>\<open>parseInt\<close>, \<^verbatim>\<open>NaN\<close> is the value \<open>None\<close> of an option.
\<close>

subsection \<open>Characters and digits\<close>

definition isDigit :: "char \<Rightarrow> bool" where
  "isDigit c = (48 \<le> (of_char c :: nat) \<and> (of_char c :: nat) \<le> 57)"

definition digitVal :: "char \<Rightarrow> int" where
  "digitVal c = int (of_char c) - 48"

definition isHexDigit :: "char \<Rightarrow> bool" where
  "isHexDigit c = (isDigit c
     \<or> (65 \<le> (of_char c :: nat) \<and> (of_char c :: nat) \<le> 70)
     \<or> (97 \<le> (of_char c :: nat) \<and> (of_char c :: nat) \<le> 102))"

definition hexVal :: "char \<Rightarrow> int" where
  "hexVal c = (if isDigit c then digitVal c
     else if (of_char c :: nat) \<le> 70 then int (of_char c) - 55
     else int (of_char c) - 87)"

text \<open>White space skipped by \<^verbatim>\<open>parseInt\<close>: tab, line feed, vertical tab, form feed,
  carriage return and space.\<close>

definition isWhite :: "char \<Rightarrow> bool" where
  "isWhite c = ((of_char c :: nat) = 9 \<or> (of_char c :: nat) = 10 \<or> (of_char c :: nat) = 11
     \<or> (of_char c :: nat) = 12 \<or> (of_char c :: nat) = 13 \<or> (of_char c :: nat) = 32)"

subsection \<open>\<^verbatim>\<open>parseInt\<close> without a radix argument\<close>

definition digitsValue :: "int \<Rightarrow> string \<Rightarrow> int" where
  "digitsValue radix ds = foldl (\<lambda>acc c. acc * radix + hexVal c) 0 ds"

text \<open>
  \<^verbatim>\<open>parseInt(s)\<close>: leading white space is skipped, one sign is read, a prefix
  \<^verbatim>\<open>0x\<close> or \<^verbatim>\<open>0X\<close> selects radix 16, and the longest run of digits is converted;
  an empty run gives \<^verbatim>\<open>NaN\<close>.
\<close>

definition parseInt :: "string \<Rightarrow> int option" where
  "parseInt s =
     (let s1 = dropWhile isWhite s;
          neg = (case s1 of [] \<Rightarrow> False | c # _ \<Rightarrow> c = CHR ''-'');
          s2 = (case s1 of [] \<Rightarrow> []
                | c # r \<Rightarrow> if c = CHR ''-'' \<or> c = CHR ''+'' then r else s1);
          hex = (case s2 of a # b # _ \<Rightarrow> a = CHR ''0'' \<and> (b = CHR ''x'' \<or> b = CHR ''X'')
                 | _ \<Rightarrow> False);
          ds = (if hex then takeWhile isHexDigit (drop 2 s2) else takeWhile isDigit s2)
      in if ds = [] then None
         else Some ((if neg then - 1 else 1) * digitsValue (if hex then 16 else 10) ds))"

subsection \<open>\<^verbatim>\<open>String.prototype.split\<close>, \<^verbatim>\<open>toString\<close>, \<^verbatim>\<open>padStart\<close>, \<^verbatim>\<open>toLowerCase\<close>\<close>

fun splitOn :: "char \<Rightarrow> string \<Rightarrow> string list" where
  "splitOn sep [] = [[]]"
| "splitOn sep (c # cs) =
     (if c = sep then [] # splitOn sep cs
      else (case splitOn sep cs of [] \<Rightarrow> [[c]] | p # ps \<Rightarrow> (c # p) # ps))"

definition digitChar :: "nat \<Rightarrow> char" where
  "digitChar n = ''0123456789'' ! n"

function natDigits :: "nat \<Rightarrow> string" where
  "natDigits n = (if n < 10 then [digitChar n] else natDigits (n div 10) @ [digitChar (n mod 10)])"
  by pat_completeness auto
termination
  by (relation "measure (\<lambda>n. n)") auto

declare natDigits.simps [simp del]

text \<open>\<^verbatim>\<open>Number.prototype.toString()\<close> on an integer value.\<close>

definition toString :: "int \<Rightarrow> string" where
  "toString i = (if i < 0 then CHR ''-'' # natDigits (nat (- i)) else natDigits (nat i))"

definition padStart :: "nat \<Rightarrow> char \<Rightarrow> string \<Rightarrow> string" where
  "padStart n c s = replicate (n - length s) c @ s"

definition lowerChar :: "char \<Rightarrow> char" where
  "lowerChar c =
     (case find (\<lambda>p. fst p = c) (zip ''ABCDEFGHIJKLMNOPQRSTUVWXYZ'' ''abcdefghijklmnopqrstuvwxyz'')
      of None \<Rightarrow> c | Some p \<Rightarrow> snd p)"

definition toLowerCase :: "string \<Rightarrow> string" where
  "toLowerCase s = map lowerChar s"

text \<open>The remainder operator \<^verbatim>\<open>%\<close> takes the sign of the dividend.\<close>

definition jsRem :: "int \<Rightarrow> int \<Rightarrow> int" where
  "jsRem a b = (if a < 0 then - ((- a) mod \<bar>b\<bar>) else a mod \<bar>b\<bar>)"

subsection \<open>Arithmetic on binary64 numbers\<close>

text \<open>
  A finite number is represented by the real it denotes. The operators \<^verbatim>\<open>*\<close>, \<^verbatim>\<open>/\<close> and
  \<^verbatim>\<open>-\<close> return the exact result rounded to the nearest binary64 value, a tie going to the
  value with the even significand. A binary64 value is an integer multiple of \<open>2 ^ q\<close> with
  a multiplier below \<open>2 ^ 53\<close>, where \<open>q + 52\<close> is the binary exponent of the value and at
  least \<open>- 1022\<close> (below it the values are subnormal). Results beyond the largest finite
  value, which the language turns into \<^verbatim>\<open>Infinity\<close>, and \<^verbatim>\<open>NaN\<close> are not modelled: the
  exponent stops at 1023.
\<close>

definition pow2 :: "int \<Rightarrow> real" where
  "pow2 k = (if 0 \<le> k then 2 ^ nat k else 1 / 2 ^ nat (- k))"

function expUp :: "real \<Rightarrow> int \<Rightarrow> int" where
  "expUp a e = (if 2 \<le> a \<and> e < 1023 then expUp (a / 2) (e + 1) else e)"
  by pat_completeness auto
termination
  by (relation "measure (\<lambda>(a, e). nat (1023 - e))") auto

function expDown :: "real \<Rightarrow> int \<Rightarrow> int" where
  "expDown a e = (if a < 1 \<and> - 1022 < e then expDown (a * 2) (e - 1) else e)"
  by pat_completeness auto
termination
  by (relation "measure (\<lambda>(a, e). nat (e + 1022))") auto

declare expUp.simps [simp del] expDown.simps [simp del]

text \<open>The binary exponent of a positive number: the \<open>e\<close> with \<open>2 ^ e \<le> a < 2 ^ (e + 1)\<close>,
  kept between \<open>- 1022\<close> and 1023.\<close>

definition binaryExponent :: "real \<Rightarrow> int" where
  "binaryExponent a = (if 2 \<le> a then expUp a 0 else expDown a 0)"

definition roundHalfEven :: "real \<Rightarrow> int" where
  "roundHalfEven x =
     (let f = \<lfloor>x\<rfloor>; r = x - of_int f
      in if r < 1 / 2 then f else if 1 / 2 < r then f + 1 else if even f then f else f + 1)"

definition rnd :: "real \<Rightarrow> real" where
  "rnd x =
     (if x = 0 then 0
      else (let q = binaryExponent \<bar>x\<bar> - 52
            in sgn x * (of_int (roundHalfEven (\<bar>x\<bar> / pow2 q)) * pow2 q)))"

definition fmul :: "real \<Rightarrow> real \<Rightarrow> real" where
  "fmul a b = rnd (a * b)"

definition fdiv :: "real \<Rightarrow> real \<Rightarrow> real" where
  "fdiv a b = rnd (a / b)"

definition fsub :: "real \<Rightarrow> real \<Rightarrow> real" where
  "fsub a b = rnd (a - b)"

text \<open>The reals that are binary64 values.\<close>

definition isDouble :: "real \<Rightarrow> bool" where
  "isDouble x = (rnd x = x)"

section \<open>Data model\<close>

text \<open>
  A \<^verbatim>\<open>Date\<close> value is represented by its local calendar day, counted from
  1 January 1970 (a Thursday). \<^verbatim>\<open>format(date, 'EEEE')\<close> of date-fns gives the English
  name of the weekday.
\<close>

type_synonym date = int

definition format_EEEE :: "date \<Rightarrow> string" where
  "format_EEEE d =
     [''Thursday'', ''Friday'', ''Saturday'', ''Sunday'', ''Monday'', ''Tuesday'', ''Wednesday'']
       ! nat (d mod 7)"

record Hours =
  openTime :: string
  closeTime :: string

record Vendor =
  operatingHours :: "string \<rightharpoonup> Hours"

section \<open>Availability deriver\<close>

text \<open>\<^verbatim>\<open>vendor.operatingHours[dayName] || { open: '09:00', close: '17:00' }\<close>\<close>

definition getDayOperatingHours :: "date \<Rightarrow> Vendor \<Rightarrow> Hours" where
  "getDayOperatingHours d v =
     (let dayName = toLowerCase (format_EEEE d)
      in case operatingHours v dayName of
           None \<Rightarrow> \<lparr>openTime = ''09:00'', closeTime = ''17:00''\<rparr>
         | Some h \<Rightarrow> h)"

text \<open>
  \<^verbatim>\<open>const [h, m = '0'] = s.split(':'); parseInt(h) * 60 + parseInt(m)\<close>,
  with \<^verbatim>\<open>NaN\<close> propagating through the arithmetic.
\<close>

definition toMinutes :: "string \<Rightarrow> int option" where
  "toMinutes s =
     (case splitOn CHR '':'' s of
        [] \<Rightarrow> None
      | h # rest \<Rightarrow>
          (let m = (case rest of [] \<Rightarrow> ''0'' | x # _ \<Rightarrow> x)
           in case parseInt h of
                None \<Rightarrow> None
              | Some hv \<Rightarrow> (case parseInt m of None \<Rightarrow> None | Some mv \<Rightarrow> Some (hv * 60 + mv))))"

text \<open>The body of the slot loop: \<^verbatim>\<open>Math.floor(time / 60)\<close>, \<^verbatim>\<open>time % 60\<close>, both padded to
  two characters and joined by a colon.\<close>

definition fmtTime :: "int \<Rightarrow> string" where
  "fmtTime t = padStart 2 CHR ''0'' (toString (t div 60)) @ '':''
                 @ padStart 2 CHR ''0'' (toString (jsRem t 60))"

text \<open>\<^verbatim>\<open>for (let time = startTime; time < endTime; time += 30) times.push(...)\<close>,
  the array \<^verbatim>\<open>times\<close> being the accumulator \<open>ts\<close>.\<close>

function timesLoop :: "int \<Rightarrow> int \<Rightarrow> string list \<Rightarrow> string list" where
  "timesLoop t endTime ts =
     (if t < endTime then timesLoop (t + 30) endTime (ts @ [fmtTime t]) else ts)"
  by pat_completeness auto
termination
  by (relation "measure (\<lambda>(t, endTime, ts). nat (endTime - t))") auto

declare timesLoop.simps [simp del]

text \<open>
  \<^verbatim>\<open>getAvailableTimes\<close> reads \<^verbatim>\<open>selectedDate\<close> and \<^verbatim>\<open>vendor\<close> from the component.
  A comparison with \<^verbatim>\<open>NaN\<close> is false, so the loop body never runs when either bound
  failed to parse.
\<close>

definition getAvailableTimes :: "Vendor \<Rightarrow> date option \<Rightarrow> string list" where
  "getAvailableTimes v selectedDate =
     (case selectedDate of
        None \<Rightarrow> []
      | Some d \<Rightarrow>
          (let h = getDayOperatingHours d v
           in if openTime h = ''closed'' \<and> closeTime h = ''closed'' then []
              else if openTime h = ''00:00'' \<and> closeTime h = ''23:59'' then
                map (\<lambda>i. padStart 2 CHR ''0'' (toString (int i div 2)) @ '':''
                          @ (if i mod 2 = 0 then ''00'' else ''30''))
                    [0..<48]
              else (case toMinutes (openTime h) of
                      None \<Rightarrow> []
                    | Some startTime \<Rightarrow>
                        (case toMinutes (closeTime h) of
                           None \<Rightarrow> []
                         | Some endTime \<Rightarrow> timesLoop startTime endTime []))))"

definition hasAvailableTimes :: "Vendor \<Rightarrow> date \<Rightarrow> bool" where
  "hasAvailableTimes v d =
     (let h = getDayOperatingHours d v
      in \<not> (openTime h = ''closed'' \<and> closeTime h = ''closed''))"

section \<open>Component state and collaborators\<close>

text \<open>\<^verbatim>\<open>type Step = 'date' | 'time' | 'details' | 'signup' | 'confirm'\<close>\<close>

datatype Step = StepDate | StepTime | StepDetails | StepSignup | StepConfirm

text \<open>\<^verbatim>\<open>password\<close> is optional in the source; the absent and the empty password are both
  falsy and are both the empty string here.\<close>

record CustomerDetails =
  firstName :: string
  lastName :: string
  email :: string
  phone :: string
  licensePlate :: string
  password :: string

text \<open>
  The declarations of \<^verbatim>\<open>Service\<close>, \<^verbatim>\<open>Offer\<close> and \<^verbatim>\<open>User\<close> (\<^verbatim>\<open>types/database\<close>) are not
  part of the source; the records hold the fields the modal reads. The wallet holds a
  non-negative integer count of coins. Offer dates are instants in milliseconds, as
  \<^verbatim>\<open>new Date(o.startDate)\<close> compares them.
\<close>

record Service =
  svc_id :: string
  svc_price :: real

record Offer =
  serviceId :: string
  discountPercentage :: real
  active :: bool
  startDate :: int
  endDate :: int

record UserType =
  wallet_coins :: nat

record AuthUser =
  uid :: string
  auth_email :: string

record BookingModalProps =
  service :: Service
  vendorId :: string
  vendor :: Vendor

text \<open>
  The messages shown by \<^verbatim>\<open>setError\<close>, in the order they occur in \<^verbatim>\<open>handleSubmit\<close>:
  select a day and a time; fill in all customer details; the e-mail address is already in
  use, log in to continue; login failed; \<^verbatim>\<open>'Ei tarpeeksi kolikoita'\<close> (not enough coins);
  creating the booking failed, try again.
\<close>

datatype Message =
  MsgSelectDateTime | MsgFillDetails | MsgEmailInUse | MsgLoginFailed
  | MsgNotEnoughCoins | MsgBookingFailed

record State =
  currentUser :: "AuthUser option"
  currentStep :: Step
  selectedDate :: "date option"
  selectedTime :: string
  useCoins :: bool
  loading :: bool
  error :: "Message option"
  showLoginPrompt :: bool
  bookingComplete :: bool
  userData :: "UserType option"
  offers :: "Offer list"
  customerDetails :: CustomerDetails

text \<open>The object literal \<^verbatim>\<open>appointmentData\<close>; its date is the selected day with the hours
  and minutes that \<^verbatim>\<open>parseInt\<close> read from the selected time.\<close>

record AppointmentCustomer =
  appt_firstName :: string
  appt_lastName :: string
  appt_email :: string
  appt_phone :: string
  appt_licensePlate :: string

record AppointmentData =
  appt_customerId :: string
  appt_vendorId :: string
  appt_serviceId :: string
  appt_date :: "date \<times> int option \<times> int option"
  appt_status :: string
  appt_totalPrice :: real
  appt_customerDetails :: AppointmentCustomer

text \<open>
  The collaborators are outside the component: the clock, \<^verbatim>\<open>signup\<close> of the
  authentication context (which resolves to a user id or rejects with an error code),
  and \<^verbatim>\<open>createAppointment\<close>, \<^verbatim>\<open>getUser\<close>, \<^verbatim>\<open>getVendorOffers\<close> of the persistence layer
  (\<^verbatim>\<open>createAppointment\<close> resolves, \<open>True\<close>, or rejects, \<open>False\<close>).
\<close>

datatype SignupResult = SignupOk string | SignupError string

record Env =
  now :: int
  signup :: "string \<Rightarrow> string \<Rightarrow> SignupResult"
  createAppointment :: "AppointmentData \<Rightarrow> int \<Rightarrow> bool"
  getUser :: "string \<Rightarrow> UserType option"
  getVendorOffers :: "string \<Rightarrow> Offer list"

text \<open>The initial values of the \<^verbatim>\<open>useState\<close> hooks.\<close>

definition initialState :: "AuthUser option \<Rightarrow> State" where
  "initialState u =
     \<lparr>currentUser = u, currentStep = StepDate, selectedDate = None, selectedTime = [],
      useCoins = False, loading = False, error = None, showLoginPrompt = False,
      bookingComplete = False, userData = None, offers = [],
      customerDetails =
        \<lparr>firstName = [], lastName = [],
         email = (case u of None \<Rightarrow> [] | Some a \<Rightarrow> auth_email a),
         phone = [], licensePlate = [], password = []\<rparr>\<rparr>"

text \<open>The effect \<^verbatim>\<open>loadUserData\<close>, run when the session or the vendor changes.\<close>

definition loadUserData :: "Env \<Rightarrow> BookingModalProps \<Rightarrow> State \<Rightarrow> State" where
  "loadUserData e p s =
     (case currentUser s of
        None \<Rightarrow> s
      | Some a \<Rightarrow> s\<lparr>userData := getUser e (uid a),
                     offers := filter active (getVendorOffers e (vendorId p))\<rparr>)"

section \<open>Pricing calculator\<close>

definition getServiceDiscount :: "int \<Rightarrow> Service \<Rightarrow> Offer list \<Rightarrow> real" where
  "getServiceDiscount nw svc os =
     (case find (\<lambda>x. serviceId x = svc_id svc \<and> startDate x \<le> nw \<and> endDate x \<ge> nw) os of
        None \<Rightarrow> 0
      | Some activeOffer \<Rightarrow>
          if discountPercentage activeOffer = 0 then 0 else discountPercentage activeOffer)"

definition getDiscountedPrice :: "int \<Rightarrow> Service \<Rightarrow> Offer list \<Rightarrow> real" where
  "getDiscountedPrice nw svc os =
     (let discount = getServiceDiscount nw svc os
      in if discount > 0 then fmul (svc_price svc) (fsub 1 (fdiv discount 100))
         else svc_price svc)"

text \<open>\<^verbatim>\<open>userData?.wallet.coins || 0\<close>\<close>

definition walletCoinsOr0 :: "UserType option \<Rightarrow> int" where
  "walletCoinsOr0 ud = (case ud of None \<Rightarrow> 0 | Some u \<Rightarrow> int (wallet_coins u))"

text \<open>The expression of the field \<^verbatim>\<open>totalPrice\<close> of \<^verbatim>\<open>appointmentData\<close> (lines 148 to 153),
  which the confirm step also displays.\<close>

definition totalPrice :: "int \<Rightarrow> Service \<Rightarrow> State \<Rightarrow> real" where
  "totalPrice nw svc s =
     (if useCoins s then
        max 0 (fsub (getDiscountedPrice nw svc (offers s))
                 (fmul (real_of_int (min (walletCoinsOr0 (userData s))
                                         \<lfloor>fdiv (getDiscountedPrice nw svc (offers s)) 0.5\<rfloor>))
                       0.5))
      else getDiscountedPrice nw svc (offers s))"

text \<open>The second argument of \<^verbatim>\<open>createAppointment\<close> (lines 163 to 166). Dividing a
  binary64 value by 0.5 doubles it, which is exact.\<close>

definition coinsToDebit :: "Service \<Rightarrow> State \<Rightarrow> int" where
  "coinsToDebit svc s =
     (if useCoins s then min (walletCoinsOr0 (userData s)) \<lfloor>svc_price svc / 0.5\<rfloor> else 0)"

section \<open>Submission sequencer\<close>

text \<open>The second guard of \<^verbatim>\<open>handleSubmit\<close>: one of the five mandatory fields is empty.\<close>

definition detailsMissing :: "CustomerDetails \<Rightarrow> bool" where
  "detailsMissing cd =
     (firstName cd = [] \<or> lastName cd = [] \<or> email cd = [] \<or> phone cd = []
      \<or> licensePlate cd = [])"

text \<open>
  Lines 107 to 123: the customer is the session's user, or the account created from the
  supplied password. A rejected \<^verbatim>\<open>signup\<close> whose code is \<^verbatim>\<open>auth/email-already-in-use\<close> is
  the conflict; any other rejection is thrown again to the outer handler.
\<close>

datatype Identity = Resolved "string option" | Conflict | Rejected

definition resolveUserId :: "Env \<Rightarrow> State \<Rightarrow> Identity" where
  "resolveUserId e s =
     (if currentUser s = None \<and> password (customerDetails s) \<noteq> [] then
        (case signup e (email (customerDetails s)) (password (customerDetails s)) of
           SignupOk newUid \<Rightarrow> Resolved (Some newUid)
         | SignupError code \<Rightarrow>
             if code = ''auth/email-already-in-use'' then Conflict else Rejected)
      else Resolved (map_option uid (currentUser s)))"

text \<open>\<^verbatim>\<open>const [hours, minutes] = selectedTime.split(':');
  dateTime.setHours(parseInt(hours), parseInt(minutes))\<close>\<close>

definition dateTimeOf :: "date \<Rightarrow> string \<Rightarrow> date \<times> int option \<times> int option" where
  "dateTimeOf d t =
     (case splitOn CHR '':'' t of
        [] \<Rightarrow> (d, None, None)
      | h # rest \<Rightarrow> (d, parseInt h, (case rest of [] \<Rightarrow> None | m # _ \<Rightarrow> parseInt m)))"

text \<open>A boolean compared with a number is converted to 1 or 0.\<close>

definition boolToNumber :: "bool \<Rightarrow> int" where
  "boolToNumber b = (if b then 1 else 0)"

text \<open>The validation of lines 135 to 140:
  \<^verbatim>\<open>useCoins && (!userData || useCoins > userData.wallet.coins)\<close>.\<close>

definition notEnoughCoins :: "State \<Rightarrow> bool" where
  "notEnoughCoins s =
     (useCoins s \<and>
      (case userData s of
         None \<Rightarrow> True
       | Some u \<Rightarrow> boolToNumber (useCoins s) > int (wallet_coins u)))"

definition appointmentDataOf ::
  "Env \<Rightarrow> BookingModalProps \<Rightarrow> State \<Rightarrow> string \<Rightarrow> date \<Rightarrow> AppointmentData" where
  "appointmentDataOf e p s userId d =
     \<lparr>appt_customerId = userId,
      appt_vendorId = vendorId p,
      appt_serviceId = svc_id (service p),
      appt_date = dateTimeOf d (selectedTime s),
      appt_status = ''confirmed'',
      appt_totalPrice = totalPrice (now e) (service p) s,
      appt_customerDetails =
        \<lparr>appt_firstName = firstName (customerDetails s),
         appt_lastName = lastName (customerDetails s),
         appt_email = email (customerDetails s),
         appt_phone = phone (customerDetails s),
         appt_licensePlate = licensePlate (customerDetails s)\<rparr>\<rparr>"

text \<open>
  \<^verbatim>\<open>handleSubmit\<close> returns the component state after the handler has run, together with
  the calls of \<^verbatim>\<open>createAppointment\<close> it made (the appointment and the coins to debit).
  The first two guards return before \<^verbatim>\<open>setLoading(true)\<close>; every later exit passes the
  \<^verbatim>\<open>finally\<close> block. The exit timer started after a successful booking is not modelled.
\<close>

definition handleSubmit ::
  "Env \<Rightarrow> BookingModalProps \<Rightarrow> State \<Rightarrow> State \<times> (AppointmentData \<times> int) list" where
  "handleSubmit e p s =
     (case selectedDate s of
        None \<Rightarrow> (s\<lparr>error := Some MsgSelectDateTime\<rparr>, [])
      | Some d \<Rightarrow>
          if selectedTime s = [] then (s\<lparr>error := Some MsgSelectDateTime\<rparr>, [])
          else if detailsMissing (customerDetails s) then (s\<lparr>error := Some MsgFillDetails\<rparr>, [])
          else
            (let s1 = s\<lparr>loading := True, error := None\<rparr>
             in case resolveUserId e s of
                  Conflict \<Rightarrow>
                    (s1\<lparr>showLoginPrompt := True, error := Some MsgEmailInUse, loading := False\<rparr>, [])
                | Rejected \<Rightarrow> (s1\<lparr>error := Some MsgBookingFailed, loading := False\<rparr>, [])
                | Resolved None \<Rightarrow> (s1\<lparr>error := Some MsgLoginFailed, loading := False\<rparr>, [])
                | Resolved (Some userId) \<Rightarrow>
                    if userId = [] then (s1\<lparr>error := Some MsgLoginFailed, loading := False\<rparr>, [])
                    else if notEnoughCoins s then
                      (s1\<lparr>error := Some MsgNotEnoughCoins, loading := False\<rparr>, [])
                    else
                      (let appointmentData = appointmentDataOf e p s userId d;
                           coins = coinsToDebit (service p) s
                       in if createAppointment e appointmentData coins then
                            (s1\<lparr>bookingComplete := True, loading := False\<rparr>,
                             [(appointmentData, coins)])
                          else
                            (s1\<lparr>error := Some MsgBookingFailed, loading := False\<rparr>,
                             [(appointmentData, coins)]))))"

text \<open>The login button is rendered inside the error box, when \<^verbatim>\<open>showLoginPrompt\<close> is set.\<close>

definition loginActionShown :: "State \<Rightarrow> bool" where
  "loginActionShown s = (error s \<noteq> None \<and> showLoginPrompt s)"

section \<open>Booking flow controller\<close>

definition nextStep :: "State \<Rightarrow> State" where
  "nextStep s =
     (if currentStep s = StepDate \<and> selectedDate s \<noteq> None then s\<lparr>currentStep := StepTime\<rparr>
      else if currentStep s = StepTime \<and> selectedTime s \<noteq> [] then s\<lparr>currentStep := StepDetails\<rparr>
      else if currentStep s = StepDetails
              \<and> firstName (customerDetails s) \<noteq> []
              \<and> lastName (customerDetails s) \<noteq> []
              \<and> email (customerDetails s) \<noteq> []
              \<and> phone (customerDetails s) \<noteq> []
              \<and> licensePlate (customerDetails s) \<noteq> [] then
        (if currentUser s = None then s\<lparr>currentStep := StepSignup\<rparr>
         else s\<lparr>currentStep := StepConfirm\<rparr>)
      else if currentStep s = StepSignup \<and> password (customerDetails s) \<noteq> [] then
        s\<lparr>currentStep := StepConfirm\<rparr>
      else s)"

definition prevStep :: "State \<Rightarrow> State" where
  "prevStep s =
     (if currentStep s = StepTime then s\<lparr>currentStep := StepDate\<rparr>
      else if currentStep s = StepDetails then s\<lparr>currentStep := StepTime\<rparr>
      else if currentStep s = StepSignup then s\<lparr>currentStep := StepDetails\<rparr>
      else if currentStep s = StepConfirm then
        s\<lparr>currentStep := (if currentUser s \<noteq> None then StepDetails else StepSignup)\<rparr>
      else s)"

text \<open>The \<^verbatim>\<open>disabled\<close> attribute of the forward button (lines 747 to 753).\<close>

definition nextDisabled :: "State \<Rightarrow> bool" where
  "nextDisabled s =
     (selectedDate s = None
      \<or> (currentStep s = StepTime \<and> selectedTime s = [])
      \<or> (currentStep s = StepDetails \<and> detailsMissing (customerDetails s))
      \<or> (currentStep s = StepSignup \<and> password (customerDetails s) = []))"

text \<open>
  The events of one modal instance: the two navigation buttons, the inputs, the coin toggle,
  the link back to the calendar on a closed day, the effect that loads the wallet and the
  offers, and the submit button. Each event runs its handler whether or not its control is
  rendered or enabled, so the states of the component are among the reachable ones. The
  session is given by the authentication context and is the same for the life of the
  instance.
\<close>

datatype Event =
  EvNext | EvPrev | EvSelectDate date | EvSelectTime string | EvSetDetails CustomerDetails
  | EvToggleCoins | EvOtherDay | EvLoadUserData | EvSubmit

definition applyEvent :: "Env \<Rightarrow> BookingModalProps \<Rightarrow> State \<Rightarrow> Event \<Rightarrow> State" where
  "applyEvent e p s ev =
     (case ev of
        EvNext \<Rightarrow> nextStep s
      | EvPrev \<Rightarrow> prevStep s
      | EvSelectDate d \<Rightarrow> s\<lparr>selectedDate := Some d\<rparr>
      | EvSelectTime t \<Rightarrow> s\<lparr>selectedTime := t\<rparr>
      | EvSetDetails cd \<Rightarrow> s\<lparr>customerDetails := cd\<rparr>
      | EvToggleCoins \<Rightarrow> s\<lparr>useCoins := \<not> useCoins s\<rparr>
      | EvOtherDay \<Rightarrow> s\<lparr>currentStep := StepDate\<rparr>
      | EvLoadUserData \<Rightarrow> loadUserData e p s
      | EvSubmit \<Rightarrow> fst (handleSubmit e p s))"

inductive reachable :: "Env \<Rightarrow> BookingModalProps \<Rightarrow> AuthUser option \<Rightarrow> State \<Rightarrow> bool"
  for e :: Env and p :: BookingModalProps and u :: "AuthUser option" where
  reachable_init: "reachable e p u (initialState u)"
| reachable_step: "reachable e p u s \<Longrightarrow> reachable e p u (applyEvent e p s ev)"

section \<open>Reference formulations\<close>

text \<open>
  The zero-padded form \<^verbatim>\<open>HH:MM\<close> of a minute of the day, written without the string
  functions of the program: two decimal digits, a colon, two decimal digits.
\<close>

definition two :: "int \<Rightarrow> string" where
  "two n = [digitChar (nat n div 10), digitChar (nat n mod 10)]"

definition hhmm :: "int \<Rightarrow> string" where
  "hhmm t = two (t div 60) @ '':'' @ two (t mod 60)"

text \<open>A time of day \<^verbatim>\<open>HH:MM\<close> between \<^verbatim>\<open>00:00\<close> and \<^verbatim>\<open>23:59\<close>, and its minutes since
  midnight.\<close>

definition isHHMM :: "string \<Rightarrow> bool" where
  "isHHMM s = (length s = 5 \<and> isDigit (s ! 0) \<and> isDigit (s ! 1) \<and> s ! 2 = CHR '':''
      \<and> isDigit (s ! 3) \<and> isDigit (s ! 4)
      \<and> 10 * digitVal (s ! 0) + digitVal (s ! 1) \<le> 23
      \<and> 10 * digitVal (s ! 3) + digitVal (s ! 4) \<le> 59)"

definition hhmmMinutes :: "string \<Rightarrow> int" where
  "hhmmMinutes s = (10 * digitVal (s ! 0) + digitVal (s ! 1)) * 60
                     + (10 * digitVal (s ! 3) + digitVal (s ! 4))"

text \<open>The instants \<open>s\<close>, \<open>s + 30\<close>, \<open>s + 60\<close>, ... that lie before \<open>e\<close>.\<close>

definition stepsFrom :: "int \<Rightarrow> int \<Rightarrow> int list" where
  "stepsFrom s e = map (\<lambda>k. s + 30 * int k) [0..<nat ((e - s + 29) div 30)]"

text \<open>
  The slot rule in the words of the specification: every 30-minute boundary \<open>t\<close> with
  \<open>open_minutes \<le> t < close_minutes\<close>, a 30-minute boundary being a multiple of 30 minutes
  since midnight.
\<close>

definition halfHourBoundaries :: "int \<Rightarrow> int \<Rightarrow> int list" where
  "halfHourBoundaries s e = filter (\<lambda>t. t mod 30 = 0) [s..e - 1]"

text \<open>
  The final price in the words of the specification, in exact arithmetic: the discounted
  price is \<open>basePrice * (1 - d / 100)\<close>, and the final price is
  \<open>max 0 (discountedPrice - min w (floor (discountedPrice / 0.5)) * 0.5)\<close> when redemption is
  enabled, else the discounted price.
\<close>

definition exactFinalPrice :: "real \<Rightarrow> real \<Rightarrow> int \<Rightarrow> bool \<Rightarrow> real" where
  "exactFinalPrice basePrice d w enabled =
     (let dp = basePrice * (1 - d / 100)
      in if enabled then max 0 (dp - real_of_int (min w \<lfloor>dp / 0.5\<rfloor>) * 0.5) else dp)"

section \<open>Example data\<close>

text \<open>
  A vendor that is closed on Mondays, open around the clock on Tuesdays, open from 17:00 to
  09:00 on Wednesdays, from 09:15 to 10:00 on Sundays, and has no entry for the other days.
  Day 0 is Thursday 1 January 1970, so day 3 is a Sunday, day 4 a Monday, day 5 a Tuesday
  and day 6 a Wednesday.
\<close>

definition exampleVendor :: Vendor where
  "exampleVendor =
     \<lparr>operatingHours = map_of
        [(''monday'', \<lparr>openTime = ''closed'', closeTime = ''closed''\<rparr>),
         (''tuesday'', \<lparr>openTime = ''00:00'', closeTime = ''23:59''\<rparr>),
         (''wednesday'', \<lparr>openTime = ''17:00'', closeTime = ''09:00''\<rparr>),
         (''sunday'', \<lparr>openTime = ''09:15'', closeTime = ''10:00''\<rparr>)]\<rparr>"

text \<open>
  A service of price 100 with an offer of 20 percent whose window contains the clock of the
  example collaborators, a customer with a wallet of 200 coins, and an event sequence: the
  state after the events of a list, from the initial state.
\<close>

definition exampleService :: Service where
  "exampleService = \<lparr>svc_id = ''wash'', svc_price = 100\<rparr>"

definition exampleOffer :: Offer where
  "exampleOffer =
     \<lparr>serviceId = ''wash'', discountPercentage = 20, active = True,
      startDate = 0, endDate = 1000\<rparr>"

definition exampleEnv :: Env where
  "exampleEnv =
     \<lparr>now = 500,
      signup = (\<lambda>em pw. if em = ''taken@example.com''
                         then SignupError ''auth/email-already-in-use''
                         else if length pw < 6 then SignupError ''auth/weak-password''
                         else SignupOk ''u2''),
      createAppointment = (\<lambda>a c. True),
      getUser = (\<lambda>i. Some \<lparr>wallet_coins = 200\<rparr>),
      getVendorOffers = (\<lambda>v. [exampleOffer])\<rparr>"

definition exampleProps :: BookingModalProps where
  "exampleProps = \<lparr>service = exampleService, vendorId = ''v1'', vendor = exampleVendor\<rparr>"

definition exampleUser :: AuthUser where
  "exampleUser = \<lparr>uid = ''u1'', auth_email = ''aino@example.com''\<rparr>"

definition exampleDetails :: "string \<Rightarrow> string \<Rightarrow> CustomerDetails" where
  "exampleDetails em pw =
     \<lparr>firstName = ''Aino'', lastName = ''Virtanen'', email = em,
      phone = ''+358401234567'', licensePlate = ''ABC-123'', password = pw\<rparr>"

definition run :: "Env \<Rightarrow> BookingModalProps \<Rightarrow> AuthUser option \<Rightarrow> Event list \<Rightarrow> State" where
  "run e p u evs = foldl (applyEvent e p) (initialState u) evs"

text \<open>
  The events of a customer who picks day 0 and 09:00, fills in the details and presses the
  forward button after each step. With a session the last event leads to the confirm step,
  without one to the signup step.
\<close>

definition exampleEvents :: "string \<Rightarrow> string \<Rightarrow> Event list" where
  "exampleEvents em pw =
     [EvLoadUserData, EvSelectDate 0, EvNext, EvSelectTime ''09:00'', EvNext,
      EvSetDetails (exampleDetails em pw), EvNext]"

text \<open>The signed-in customer at the confirm step, with the coin toggle switched on.\<close>

definition sessionAtConfirm :: State where
  "sessionAtConfirm =
     run exampleEnv exampleProps (Some exampleUser)
       (exampleEvents ''aino@example.com'' [] @ [EvToggleCoins])"

text \<open>A customer without session at the signup step, having typed the given password.\<close>

definition guestAtSignup :: "string \<Rightarrow> string \<Rightarrow> State" where
  "guestAtSignup em pw = run exampleEnv exampleProps None (exampleEvents em pw)"

text \<open>The same customer one step further, at the confirm step.\<close>

definition guestAtConfirm :: "string \<Rightarrow> string \<Rightarrow> State" where
  "guestAtConfirm em pw = run exampleEnv exampleProps None (exampleEvents em pw @ [EvNext])"

text \<open>A signed-in customer with a wallet of 100 coins and redemption enabled, at a vendor
  with an offer of 80 percent on the service.\<close>

definition redeemingAtEighty :: State where
  "redeemingAtEighty =
     (initialState (Some exampleUser))
       \<lparr>useCoins := True, userData := Some \<lparr>wallet_coins = 100\<rparr>,
        offers := [exampleOffer\<lparr>discountPercentage := 80\<rparr>]\<rparr>"

section \<open>Properties of the primitives\<close>

lemma stepsFrom_rec: "stepsFrom s e = (if s < e then s # stepsFrom (s + 30) e else [])"
proof (cases "s < e")
  case True
  define a where "a = e - (s + 30) + 29"
  have a0: "0 \<le> a div 30" using True unfolding a_def by (simp add: pos_imp_zdiv_nonneg_iff)
  have "e - s + 29 = a + 30" unfolding a_def by simp
  then have "(e - s + 29) div 30 = a div 30 + 1" by simp
  then have n: "nat ((e - s + 29) div 30) = Suc (nat (a div 30))"
    using a0 by (simp add: nat_add_distrib)
  have m: "map (\<lambda>k. s + 30 * int k) [0..<Suc (nat (a div 30))]
         = s # map (\<lambda>k. s + 30 + 30 * int k) [0..<nat (a div 30)]"
    by (simp only: upt_conv_Cons [of 0] zero_less_Suc list.map map_Suc_upt [symmetric] map_map)
       (simp add: comp_def)
  show ?thesis
    using True unfolding stepsFrom_def n m a_def [symmetric]
    by (simp add: a_def)
next
  case False
  then have "e - s + 29 \<le> 29" by simp
  then have "(e - s + 29) div 30 \<le> 29 div 30" by (rule zdiv_mono1) simp
  then have "nat ((e - s + 29) div 30) = 0" by simp
  then show ?thesis using False by (simp add: stepsFrom_def)
qed

lemma stepsFrom_bounds: "t \<in> set (stepsFrom s e) \<Longrightarrow> s \<le> t \<and> t < e"
  unfolding stepsFrom_def by auto

lemma timesLoop_eq: "timesLoop s e ts = ts @ map fmtTime (stepsFrom s e)"
proof (induction s e ts rule: timesLoop.induct)
  case (1 t endTime ts)
  show ?case
  proof (cases "t < endTime")
    case True
    then show ?thesis
      using "1" by (subst timesLoop.simps, subst stepsFrom_rec) simp
  next
    case False
    then show ?thesis
      by (subst timesLoop.simps, subst stepsFrom_rec) simp
  qed
qed

lemma natDigits_two:
  "n < 100 \<Longrightarrow> padStart 2 CHR ''0'' (natDigits n) = [digitChar (n div 10), digitChar (n mod 10)]"
proof (cases "n < 10")
  case True
  then show ?thesis by (simp add: natDigits.simps [of n] padStart_def digitChar_def)
next
  case False
  assume "n < 100"
  then have "n div 10 < 10" by simp
  then show ?thesis using False
    by (simp add: natDigits.simps [of n] natDigits.simps [of "n div 10"] padStart_def)
qed

lemma fmtTime_hhmm: "0 \<le> t \<Longrightarrow> t < 6000 \<Longrightarrow> fmtTime t = hhmm t"
proof -
  assume a: "0 \<le> t" "t < 6000"
  then have h: "\<not> t div 60 < 0" "nat (t div 60) < 100" by simp_all
  have m: "\<not> t mod 60 < 0" "nat (t mod 60) < 100" by simp_all
  have j: "jsRem t 60 = t mod 60" using a by (simp add: jsRem_def)
  show ?thesis
    unfolding fmtTime_def hhmm_def two_def toString_def j
    using h m by (simp add: natDigits_two)
qed

lemma digit_not_special:
  assumes "isDigit c"
  shows "\<not> isWhite c" "c \<noteq> CHR ''-''" "c \<noteq> CHR ''+''" "c \<noteq> CHR ''x''" "c \<noteq> CHR ''X''"
    "c \<noteq> CHR '':''" "hexVal c = digitVal c"
  using assms by (auto simp add: isDigit_def isWhite_def hexVal_def)

lemma parseInt_two:
  assumes "isDigit a" "isDigit b"
  shows "parseInt [a, b] = Some (10 * digitVal a + digitVal b)"
  using assms digit_not_special [OF assms(1)] digit_not_special [OF assms(2)]
  by (simp add: parseInt_def digitsValue_def)

lemma list5: "length s = 5 \<Longrightarrow> s = [s ! 0, s ! 1, s ! 2, s ! 3, s ! 4]"
  by (rule nth_equalityI) (auto simp add: nth_Cons' less_Suc_eq numeral_eq_Suc)

lemma toMinutes_HHMM:
  assumes "isHHMM s"
  shows "toMinutes s = Some (hhmmMinutes s)"
proof -
  from assms have len: "length s = 5" by (simp add: isHHMM_def)
  obtain a b c d e where s: "s = [a, b, c, d, e]" using list5 [OF len] by blast
  from assms s have dg: "isDigit a" "isDigit b" "c = CHR '':''" "isDigit d" "isDigit e"
    by (simp_all add: isHHMM_def)
  have sp: "splitOn CHR '':'' s = [[a, b], [d, e]]"
    using dg digit_not_special(6) [of a] digit_not_special(6) [of b]
      digit_not_special(6) [of d] digit_not_special(6) [of e]
    by (simp add: s)
  show ?thesis
    unfolding toMinutes_def sp
    by (simp add: parseInt_two dg hhmmMinutes_def s)
qed

lemma hhmmMinutes_range: "isHHMM s \<Longrightarrow> 0 \<le> hhmmMinutes s \<and> hhmmMinutes s < 1440"
  by (auto simp add: isHHMM_def hhmmMinutes_def isDigit_def digitVal_def)

lemma isHHMM_not_closed: "isHHMM s \<Longrightarrow> s \<noteq> ''closed''"
  by (auto simp add: isHHMM_def)

lemma slots_general:
  assumes "isHHMM (openTime (getDayOperatingHours d v))"
    and "isHHMM (closeTime (getDayOperatingHours d v))"
    and "\<not> (openTime (getDayOperatingHours d v) = ''00:00'' \<and> closeTime (getDayOperatingHours d v) = ''23:59'')"
  shows "getAvailableTimes v (Some d) =
           map hhmm (stepsFrom (hhmmMinutes (openTime (getDayOperatingHours d v)))
                               (hhmmMinutes (closeTime (getDayOperatingHours d v))))"
proof -
  let ?h = "getDayOperatingHours d v"
  let ?s = "hhmmMinutes (openTime ?h)" and ?e = "hhmmMinutes (closeTime ?h)"
  have nc: "openTime ?h \<noteq> ''closed''" using assms(1) isHHMM_not_closed by blast
  have "getAvailableTimes v (Some d) = timesLoop ?s ?e []"
    using assms(3) nc
    by (auto simp add: getAvailableTimes_def Let_def toMinutes_HHMM [OF assms(1)] toMinutes_HHMM [OF assms(2)])
  also have "\<dots> = map fmtTime (stepsFrom ?s ?e)" by (simp add: timesLoop_eq)
  also have "\<dots> = map hhmm (stepsFrom ?s ?e)"
  proof (rule map_cong [OF refl])
    fix t assume "t \<in> set (stepsFrom ?s ?e)"
    then have "?s \<le> t" "t < ?e" using stepsFrom_bounds by blast+
    then show "fmtTime t = hhmm t"
      using hhmmMinutes_range [OF assms(1)] hhmmMinutes_range [OF assms(2)]
      by (intro fmtTime_hhmm) auto
  qed
  finally show ?thesis .
qed

lemma div30:
  fixes x :: int
  shows "x = 30 * (x div 30) + x mod 30" "0 \<le> x mod 30" "x mod 30 < 30"
  by simp_all

lemma set_stepsFrom: "set (stepsFrom s e) = {t. s \<le> t \<and> t < e \<and> (t - s) mod 30 = 0}"
proof (rule set_eqI, rule iffI)
  fix t assume "t \<in> set (stepsFrom s e)"
  then obtain k where k: "t = s + 30 * int k" "k < nat ((e - s + 29) div 30)"
    unfolding stepsFrom_def by auto
  from k(2) have "int k < (e - s + 29) div 30" by simp
  then have "s + 30 * int k < e" using div30 [of "e - s + 29"] by linarith
  with k(1) show "t \<in> {t. s \<le> t \<and> t < e \<and> (t - s) mod 30 = 0}" by simp
next
  fix t assume "t \<in> {t. s \<le> t \<and> t < e \<and> (t - s) mod 30 = 0}"
  then have a: "s \<le> t" "t < e" "(t - s) mod 30 = 0" by simp_all
  define k where "k = nat ((t - s) div 30)"
  have q: "0 \<le> (t - s) div 30" using a(1) by (simp add: pos_imp_zdiv_nonneg_iff)
  then have ik: "int k = (t - s) div 30" unfolding k_def by simp
  have t: "t = s + 30 * int k" using a(3) div30(1) [of "t - s"] unfolding ik by linarith
  have "int k < (e - s + 29) div 30"
    using a(2) t div30 [of "e - s + 29"] by linarith
  then have "k < nat ((e - s + 29) div 30)" by simp
  with t show "t \<in> set (stepsFrom s e)" unfolding stepsFrom_def by auto
qed

lemma steps_aligned:
  assumes "s mod 30 = 0"
  shows "stepsFrom s e = halfHourBoundaries s e"
proof (rule sorted_distinct_set_unique)
  have st: "sorted_wrt (<) (stepsFrom s e)"
    unfolding stepsFrom_def sorted_wrt_map
    by (rule sorted_wrt_mono_rel [OF _ sorted_wrt_upt]) simp
  show "sorted (stepsFrom s e)" "distinct (stepsFrom s e)"
    using st by (simp_all add: strict_sorted_iff)
  show "sorted (halfHourBoundaries s e)" "distinct (halfHourBoundaries s e)"
    unfolding halfHourBoundaries_def by (simp_all add: sorted_wrt_filter)
  have "\<And>t. (t - s) mod 30 = t mod 30"
  proof -
    fix t
    have "(t - s) mod 30 = (t mod 30 - s mod 30) mod 30" by (simp add: mod_diff_eq)
    then show "(t - s) mod 30 = t mod 30" using assms by simp
  qed
  then show "set (stepsFrom s e) = set (halfHourBoundaries s e)"
    unfolding set_stepsFrom halfHourBoundaries_def by auto
qed

lemma default_grid:
  "map hhmm (stepsFrom (hhmmMinutes ''09:00'') (hhmmMinutes ''17:00'')) =
     [''09:00'', ''09:30'', ''10:00'', ''10:30'', ''11:00'', ''11:30'', ''12:00'', ''12:30'',
      ''13:00'', ''13:30'', ''14:00'', ''14:30'', ''15:00'', ''15:30'', ''16:00'', ''16:30'']"
  by code_simp

lemma default_hours:
  "operatingHours v (toLowerCase (format_EEEE d)) = None \<Longrightarrow>
     getDayOperatingHours d v = \<lparr>openTime = ''09:00'', closeTime = ''17:00''\<rparr>"
  by (simp add: getDayOperatingHours_def)

lemma grid_entry:
  assumes "i < 48"
  shows "padStart 2 CHR ''0'' (toString (int i div 2)) @ '':'' @ (if i mod 2 = 0 then ''00'' else ''30'')
           = hhmm (30 * int i)"
proof -
  have "(30 * int i) div (30 * 2) = int i div 2" by (rule div_mult_mult1) simp
  then have d: "(30 * int i) div 60 = int i div 2" by simp
  have "(30 * int i) mod (30 * 2) = 30 * (int i mod 2)" by (rule mod_mult_mult1)
  moreover have "int i mod 2 = int (i mod 2)" by (simp add: zmod_int)
  ultimately have m: "(30 * int i) mod 60 = (if i mod 2 = 0 then 0 else 30)"
    by (cases "i mod 2 = 0") simp_all
  have n: "nat (int i div 2) < 100" "\<not> int i div 2 < 0" using assms by simp_all
  show ?thesis
    unfolding hhmm_def d m using n
    by (simp add: toString_def natDigits_two two_def digitChar_def)
qed

section \<open>Properties of the rounded arithmetic\<close>

lemma pow2_pos: "0 < pow2 k"
  by (simp add: pow2_def)

lemma roundHalfEven_nonneg: "0 \<le> x \<Longrightarrow> 0 \<le> roundHalfEven x"
  by (simp add: roundHalfEven_def Let_def)

lemma roundHalfEven_le: "x \<le> real_of_int n \<Longrightarrow> roundHalfEven x \<le> n"
proof -
  assume a: "x \<le> real_of_int n"
  then have f: "\<lfloor>x\<rfloor> \<le> n" by (simp add: floor_le_iff)
  show ?thesis
  proof (cases "\<lfloor>x\<rfloor> = n")
    case True
    then have "x - real_of_int \<lfloor>x\<rfloor> \<le> 0" using a by simp
    then show ?thesis using True by (simp add: roundHalfEven_def Let_def)
  next
    case False
    then have "\<lfloor>x\<rfloor> + 1 \<le> n" using f by simp
    then show ?thesis using f by (simp add: roundHalfEven_def Let_def)
  qed
qed

lemma expDown_le: "expDown a e \<le> e"
proof (induction a e rule: expDown.induct)
  case (1 a e)
  show ?case
  proof (cases "a < 1 \<and> - 1022 < e")
    case True
    then have "expDown a e = expDown (a * 2) (e - 1)" by (subst expDown.simps) simp
    then show ?thesis using "1" True by simp
  next
    case False
    then show ?thesis by (subst expDown.simps) auto
  qed
qed

lemma rnd_nonneg: "0 \<le> x \<Longrightarrow> 0 \<le> rnd x"
proof (cases "x = 0")
  case True
  then show ?thesis by (simp add: rnd_def)
next
  case False
  assume "0 \<le> x"
  then have p: "0 < x" using False by simp
  have "0 \<le> roundHalfEven (\<bar>x\<bar> / pow2 (binaryExponent \<bar>x\<bar> - 52))"
    by (intro roundHalfEven_nonneg divide_nonneg_pos pow2_pos) simp
  then show ?thesis
    using p pow2_pos [of "binaryExponent \<bar>x\<bar> - 52"] by (simp add: rnd_def Let_def)
qed

lemma rnd_le_one: "x \<le> 1 \<Longrightarrow> rnd x \<le> 1"
proof -
  assume a: "x \<le> 1"
  consider "x = 0" | "x < 0" | "0 < x" by linarith
  then show ?thesis
  proof cases
    case 1
    then show ?thesis by (simp add: rnd_def)
  next
    case 2
    let ?q = "binaryExponent \<bar>x\<bar> - 52"
    have "0 \<le> real_of_int (roundHalfEven (\<bar>x\<bar> / pow2 ?q)) * pow2 ?q"
    proof -
      have "0 \<le> roundHalfEven (\<bar>x\<bar> / pow2 ?q)"
        by (intro roundHalfEven_nonneg divide_nonneg_pos pow2_pos) simp
      then show ?thesis using pow2_pos [of ?q] by simp
    qed
    then show ?thesis using 2 by (simp add: rnd_def Let_def)
  next
    case 3
    let ?e = "binaryExponent \<bar>x\<bar>"
    let ?q = "?e - 52"
    have ax: "\<bar>x\<bar> = x" using 3 by simp
    have "?e \<le> 0" using a 3 expDown_le [of x 0] by (simp add: binaryExponent_def)
    then have q: "?q < 0" by simp
    then have pq: "pow2 ?q = 1 / 2 ^ nat (- ?q)" by (simp add: pow2_def)
    have "x / pow2 ?q = x * 2 ^ nat (- ?q)" by (simp add: pq)
    also have "\<dots> \<le> 1 * 2 ^ nat (- ?q)" using a by (intro mult_right_mono) simp_all
    finally have "x / pow2 ?q \<le> real_of_int (2 ^ nat (- ?q))" by simp
    then have "roundHalfEven (x / pow2 ?q) \<le> 2 ^ nat (- ?q)" by (rule roundHalfEven_le)
    then have "real_of_int (roundHalfEven (x / pow2 ?q)) \<le> 2 ^ nat (- ?q)"
      by (metis of_int_le_iff of_int_numeral of_int_power)
    then have "real_of_int (roundHalfEven (x / pow2 ?q)) * pow2 ?q \<le> 2 ^ nat (- ?q) * pow2 ?q"
      using pow2_pos [of ?q] by (intro mult_right_mono) simp_all
    also have "\<dots> = 1" by (simp add: pq)
    finally show ?thesis using 3 by (simp add: rnd_def Let_def ax)
  qed
qed

lemmas float_eval =
  fmul_def fsub_def fdiv_def rnd_def binaryExponent_def expUp.simps expDown.simps
  pow2_def roundHalfEven_def Let_def

lemma rnd_values: "rnd 0 = 0" "rnd 1 = 1" "rnd 2 = 2" "rnd (1 / 2) = 1 / 2"
  by (simp_all add: float_eval)

lemma discount_factor_nonneg:
  assumes "0 \<le> d" and "d \<le> 100"
  shows "0 \<le> fsub 1 (fdiv d 100)"
proof -
  have "d / 100 \<le> 1" using assms by simp
  then have "fdiv d 100 \<le> 1" unfolding fdiv_def by (rule rnd_le_one)
  then show ?thesis unfolding fsub_def by (intro rnd_nonneg) simp
qed

lemma discounted_nonneg:
  assumes "0 \<le> d" and "d \<le> 100" and "0 \<le> x"
  shows "0 \<le> fmul x (fsub 1 (fdiv d 100))"
  unfolding fmul_def using discount_factor_nonneg [OF assms(1,2)] assms(3)
  by (intro rnd_nonneg) simp

lemma discounted_zero:
  assumes "isDouble x"
  shows "fmul x (fsub 1 (fdiv 0 100)) = x"
  using assms by (simp add: fmul_def fsub_def fdiv_def rnd_values isDouble_def)

lemma eighty_percent_of_five: "fmul 5 (fsub 1 (fdiv 80 100)) = 1 - 1 / 2 ^ 52"
  by (simp add: float_eval)

lemma twenty_percent_of_hundred: "fmul 100 (fsub 1 (fdiv 20 100)) = 80"
  by (simp add: float_eval)

lemma redeem_from_eighty:
  "max 0 (fsub 80 (fmul (real_of_int (min 200 \<lfloor>fdiv 80 (1 / 2)\<rfloor>)) (1 / 2))) = 0"
  by (simp add: float_eval)

section \<open>Properties of the step machine and of the example data\<close>

lemma reachable_foldl: "reachable e p u s \<Longrightarrow> reachable e p u (foldl (applyEvent e p) s evs)"
  by (induction evs arbitrary: s) (auto intro: reachable_step)

lemma reachable_run: "reachable e p u (run e p u evs)"
  unfolding run_def by (rule reachable_foldl [OF reachable_init])

lemma handleSubmit_keeps:
  "currentUser (fst (handleSubmit e p s)) = currentUser s"
  "currentStep (fst (handleSubmit e p s)) = currentStep s"
  "offers (fst (handleSubmit e p s)) = offers s"
  "userData (fst (handleSubmit e p s)) = userData s"
  by (simp_all add: handleSubmit_def Let_def split: option.split Identity.split)

lemma applyEvent_currentUser: "currentUser (applyEvent e p s ev) = currentUser s"
  by (cases ev) (simp_all add: applyEvent_def nextStep_def prevStep_def loadUserData_def
      handleSubmit_keeps split: option.split)

lemma reachable_inv:
  "reachable e p u s \<Longrightarrow>
     currentUser s = u \<and> (currentStep s = StepSignup \<longrightarrow> u = None)
     \<and> (u = None \<longrightarrow> offers s = [] \<and> userData s = None)"
proof (induction rule: reachable.induct)
  case reachable_init
  show ?case by (simp add: initialState_def)
next
  case (reachable_step s ev)
  then show ?case
    by (cases ev) (auto simp add: applyEvent_def nextStep_def prevStep_def loadUserData_def
        handleSubmit_keeps split: option.split)
qed

lemma sessionAtConfirm_eq:
  "sessionAtConfirm =
     \<lparr>currentUser = Some exampleUser, currentStep = StepConfirm, selectedDate = Some 0,
      selectedTime = ''09:00'', useCoins = True, loading = False, error = None,
      showLoginPrompt = False, bookingComplete = False,
      userData = Some \<lparr>wallet_coins = 200\<rparr>, offers = [exampleOffer],
      customerDetails = exampleDetails ''aino@example.com'' []\<rparr>"
  by (simp add: sessionAtConfirm_def run_def exampleEvents_def exampleDetails_def exampleEnv_def
      exampleProps_def exampleUser_def initialState_def applyEvent_def nextStep_def
      loadUserData_def exampleOffer_def)

lemma guestAtSignup_eq:
  "guestAtSignup em pw =
     \<lparr>currentUser = None, currentStep = (if em = [] then StepDetails else StepSignup),
      selectedDate = Some 0, selectedTime = ''09:00'', useCoins = False, loading = False,
      error = None, showLoginPrompt = False, bookingComplete = False,
      userData = None, offers = [], customerDetails = exampleDetails em pw\<rparr>"
  by (simp add: guestAtSignup_def run_def exampleEvents_def exampleDetails_def
      initialState_def applyEvent_def nextStep_def loadUserData_def)

lemma guestAtConfirm_eq: "guestAtConfirm em pw = nextStep (guestAtSignup em pw)"
  by (simp add: guestAtConfirm_def guestAtSignup_def run_def applyEvent_def)

lemma redeemingAtEighty_eq:
  "getServiceDiscount 500 \<lparr>svc_id = ''wash'', svc_price = 5\<rparr> (offers redeemingAtEighty) = 80"
  "walletCoinsOr0 (userData redeemingAtEighty) = 100"
  "useCoins redeemingAtEighty"
  by (simp_all add: redeemingAtEighty_def getServiceDiscount_def exampleOffer_def
      walletCoinsOr0_def)

section \<open>Availability deriver: the slot list\<close>

text \<open>
  C4, as the specification words it: for hours that are neither sentinel, the slot list is
  the \<^verbatim>\<open>HH:MM\<close> strings of every 30-minute boundary \<open>t\<close> with
  \<open>open_minutes \<le> t < close_minutes\<close>. This fails when the opening time is not itself on a
  half hour. On a Sunday the example vendor opens at 09:15 and closes at 10:00: the only
  30-minute boundary in that range is 09:30, and the program returns 09:15 and 09:45.
\<close>

theorem slots_every_half_hour_boundary_counterexample:
  "getAvailableTimes exampleVendor (Some 3) = [''09:15'', ''09:45'']
   \<and> getDayOperatingHours 3 exampleVendor = \<lparr>openTime = ''09:15'', closeTime = ''10:00''\<rparr>
   \<and> map hhmm (halfHourBoundaries (hhmmMinutes ''09:15'') (hhmmMinutes ''10:00'')) = [''09:30'']
   \<and> getAvailableTimes exampleVendor (Some 3)
       \<noteq> map hhmm (halfHourBoundaries (hhmmMinutes ''09:15'') (hhmmMinutes ''10:00''))"
  by code_simp

text \<open>
  C4, amended: for every date and vendor whose resolved hours \<open>h\<close> (the default 09:00 to
  17:00 when the weekday has no entry) are two times of day \<^verbatim>\<open>HH:MM\<close> other than the
  24-hour sentinel, the slot list is exactly the zero-padded \<^verbatim>\<open>HH:MM\<close> strings of the
  instants \<open>open_minutes + 30 * k\<close>, \<open>k = 0, 1, 2, ...\<close>, that are smaller than
  \<open>close_minutes\<close>: the steps are counted from the opening time and the closing time is
  excluded. When the opening time is a multiple of 30 minutes these are exactly the
  30-minute boundaries \<open>t\<close> with \<open>open_minutes \<le> t < close_minutes\<close>. For a weekday
  without entry the list is the 16 entries 09:00 to 16:30, without 17:00.
\<close>

theorem slots_step_from_open:
  assumes "h = getDayOperatingHours d v"
    and "isHHMM (openTime h)" and "isHHMM (closeTime h)"
    and "\<not> (openTime h = ''00:00'' \<and> closeTime h = ''23:59'')"
  shows "getAvailableTimes v (Some d)
           = map hhmm (stepsFrom (hhmmMinutes (openTime h)) (hhmmMinutes (closeTime h)))
         \<and> (hhmmMinutes (openTime h) mod 30 = 0 \<longrightarrow>
              getAvailableTimes v (Some d)
                = map hhmm (halfHourBoundaries (hhmmMinutes (openTime h)) (hhmmMinutes (closeTime h))))
         \<and> (operatingHours v (toLowerCase (format_EEEE d)) = None \<longrightarrow>
              getAvailableTimes v (Some d) =
                [''09:00'', ''09:30'', ''10:00'', ''10:30'', ''11:00'', ''11:30'', ''12:00'',
                 ''12:30'', ''13:00'', ''13:30'', ''14:00'', ''14:30'', ''15:00'', ''15:30'',
                 ''16:00'', ''16:30''])"
proof -
  have g: "getAvailableTimes v (Some d)
           = map hhmm (stepsFrom (hhmmMinutes (openTime h)) (hhmmMinutes (closeTime h)))"
    using assms slots_general [of d v] by simp
  have a: "hhmmMinutes (openTime h) mod 30 = 0 \<Longrightarrow>
      getAvailableTimes v (Some d)
        = map hhmm (halfHourBoundaries (hhmmMinutes (openTime h)) (hhmmMinutes (closeTime h)))"
    using g by (simp add: steps_aligned)
  have n: "operatingHours v (toLowerCase (format_EEEE d)) = None \<Longrightarrow>
      getAvailableTimes v (Some d) =
                [''09:00'', ''09:30'', ''10:00'', ''10:30'', ''11:00'', ''11:30'', ''12:00'',
                 ''12:30'', ''13:00'', ''13:30'', ''14:00'', ''14:30'', ''15:00'', ''15:30'',
                 ''16:00'', ''16:30'']"
    using g assms(1) default_grid by (simp add: default_hours)
  show ?thesis using g a n by blast
qed

text \<open>The amended C4 at the Sunday of the example vendor: 09:15 and 09:45.\<close>

theorem slots_step_from_open_witness:
  "isHHMM ''09:15'' \<and> isHHMM ''10:00''
   \<and> getDayOperatingHours 3 exampleVendor = \<lparr>openTime = ''09:15'', closeTime = ''10:00''\<rparr>
   \<and> getAvailableTimes exampleVendor (Some 3) = map hhmm [555, 585]"
proof -
  have h: "getDayOperatingHours 3 exampleVendor = \<lparr>openTime = ''09:15'', closeTime = ''10:00''\<rparr>"
    by code_simp
  have w: "isHHMM ''09:15''" "isHHMM ''10:00''" by code_simp+
  have s: "stepsFrom (hhmmMinutes ''09:15'') (hhmmMinutes ''10:00'') = [555, 585]" by code_simp
  show ?thesis
    using slots_step_from_open [of "\<lparr>openTime = ''09:15'', closeTime = ''10:00''\<rparr>" 3 exampleVendor]
      h w s
    by simp
qed

text \<open>
  C5: when the hours of the weekday are \<^verbatim>\<open>closed\<close> for both the opening and the closing
  time, the slot list is empty and the date is marked unavailable; a date is marked available
  exactly when its resolved hours are not the closed sentinel. The mark is computed from the
  hours alone, not from the slot list: on its Wednesday (17:00 to 09:00) the example vendor
  is marked available although the slot list is empty.
\<close>

theorem closed_day_unavailable:
  "(openTime (getDayOperatingHours d v) = ''closed'' \<and> closeTime (getDayOperatingHours d v) = ''closed''
      \<longrightarrow> getAvailableTimes v (Some d) = [] \<and> \<not> hasAvailableTimes v d)
   \<and> (hasAvailableTimes v d
        = (\<not> (openTime (getDayOperatingHours d v) = ''closed''
              \<and> closeTime (getDayOperatingHours d v) = ''closed'')))
   \<and> hasAvailableTimes exampleVendor 6 \<and> getAvailableTimes exampleVendor (Some 6) = []"
proof -
  have "hasAvailableTimes exampleVendor 6" by code_simp
  moreover have "getAvailableTimes exampleVendor (Some 6) = []" by code_simp
  ultimately show ?thesis
    by (simp add: getAvailableTimes_def hasAvailableTimes_def Let_def)
qed

text \<open>C5 at the Monday of the example vendor, which is closed.\<close>

theorem closed_day_unavailable_witness:
  "openTime (getDayOperatingHours 4 exampleVendor) = ''closed''
   \<and> closeTime (getDayOperatingHours 4 exampleVendor) = ''closed''
   \<and> getAvailableTimes exampleVendor (Some 4) = [] \<and> \<not> hasAvailableTimes exampleVendor 4"
proof -
  have h: "getDayOperatingHours 4 exampleVendor = \<lparr>openTime = ''closed'', closeTime = ''closed''\<rparr>"
    by code_simp
  show ?thesis using closed_day_unavailable [of 4 exampleVendor] h by simp
qed

text \<open>
  C6: when the hours of the weekday are exactly 00:00 and 23:59, the slot list has exactly 48
  entries, the zero-padded \<^verbatim>\<open>HH:MM\<close> strings of the minutes 0, 30, 60, ..., 1410 in
  increasing order, from 00:00 to 23:30.
\<close>

theorem full_day_grid:
  assumes "openTime (getDayOperatingHours d v) = ''00:00''"
    and "closeTime (getDayOperatingHours d v) = ''23:59''"
  shows "getAvailableTimes v (Some d) = map (\<lambda>i. hhmm (30 * int i)) [0..<48]
         \<and> length (getAvailableTimes v (Some d)) = 48
         \<and> hd (getAvailableTimes v (Some d)) = ''00:00''
         \<and> last (getAvailableTimes v (Some d)) = ''23:30''"
proof -
  have "getAvailableTimes v (Some d)
          = map (\<lambda>i. padStart 2 CHR ''0'' (toString (int i div 2)) @ '':''
                       @ (if i mod 2 = 0 then ''00'' else ''30'')) [0..<48]"
    using assms by (simp add: getAvailableTimes_def Let_def)
  also have "\<dots> = map (\<lambda>i. hhmm (30 * int i)) [0..<48]"
    by (rule map_cong [OF refl], rule grid_entry) simp
  finally have g: "getAvailableTimes v (Some d) = map (\<lambda>i. hhmm (30 * int i)) [0..<48]" .
  have h: "hd (map (\<lambda>i. hhmm (30 * int i)) [0..<48]) = ''00:00''" by code_simp
  have l: "last (map (\<lambda>i. hhmm (30 * int i)) [0..<48]) = ''23:30''" by code_simp
  show ?thesis using g h l by simp
qed

text \<open>C6 at the Tuesday of the example vendor, open around the clock.\<close>

theorem full_day_grid_witness:
  "openTime (getDayOperatingHours 5 exampleVendor) = ''00:00''
   \<and> closeTime (getDayOperatingHours 5 exampleVendor) = ''23:59''
   \<and> length (getAvailableTimes exampleVendor (Some 5)) = 48
   \<and> getAvailableTimes exampleVendor (Some 5) ! 17 = ''08:30''"
proof -
  have h: "getDayOperatingHours 5 exampleVendor = \<lparr>openTime = ''00:00'', closeTime = ''23:59''\<rparr>"
    by code_simp
  have e: "map (\<lambda>i. hhmm (30 * int i)) [0..<48] ! 17 = ''08:30''" by code_simp
  show ?thesis using full_day_grid [of 5 exampleVendor] h e by simp
qed

section \<open>Pricing calculator: final price and coin debit\<close>

text \<open>
  C3, as it is stated, gives the final price by a formula of exact arithmetic:
  \<open>max 0 (dp - min w (floor (dp / 0.5)) * 0.5)\<close> with \<open>dp = basePrice * (1 - d / 100)\<close>. The
  program computes in binary64 arithmetic. For a base price of 5, an offer of 80 percent and
  a wallet of 100 coins the formula gives 0, the discounted price being exactly 1. In the
  program the discounted price is rounded to \<open>1 - 2 ^ -52\<close>, only one coin is redeemed, and
  the final price is \<open>1 / 2 - 2 ^ -52\<close>, which is displayed as 0.50.
\<close>

theorem final_price_exact_counterexample:
  "totalPrice 500 \<lparr>svc_id = ''wash'', svc_price = 5\<rparr> redeemingAtEighty = 1 / 2 - 1 / 2 ^ 52
   \<and> exactFinalPrice 5 80 100 True = 0
   \<and> totalPrice 500 \<lparr>svc_id = ''wash'', svc_price = 5\<rparr> redeemingAtEighty
        \<noteq> exactFinalPrice 5 80 100 True"
proof -
  have dp: "getDiscountedPrice 500 \<lparr>svc_id = ''wash'', svc_price = 5\<rparr> (offers redeemingAtEighty)
              = 1 - 1 / 2 ^ 52"
    by (simp add: getDiscountedPrice_def redeemingAtEighty_eq eighty_percent_of_five)
  have fl: "\<lfloor>fdiv (1 - 1 / 2 ^ 52) 0.5\<rfloor> = 1" by (simp add: float_eval)
  have sb: "fsub (1 - 1 / 2 ^ 52) (fmul 1 0.5) = 1 / 2 - 1 / 2 ^ 52" by (simp add: float_eval)
  have t: "totalPrice 500 \<lparr>svc_id = ''wash'', svc_price = 5\<rparr> redeemingAtEighty = 1 / 2 - 1 / 2 ^ 52"
    unfolding totalPrice_def dp redeemingAtEighty_eq(2) fl using redeemingAtEighty_eq(3) sb
    by simp
  have x: "exactFinalPrice 5 80 100 True = 0" by (simp add: exactFinalPrice_def)
  show ?thesis unfolding t x by simp
qed

text \<open>
  C3, amended: let \<open>d\<close> be the discount percentage resolved for the service, between 0 and
  100, \<open>w\<close> the wallet balance (0 when no wallet is loaded), and let every multiplication,
  division and subtraction be the binary64 operation, which rounds its result. With
  \<open>dp = basePrice * (1 - d / 100)\<close> so computed, the final price is
  \<open>max 0 (dp - min w (floor (dp / 0.5)) * 0.5)\<close> when redemption is enabled and \<open>dp\<close> when it is
  disabled. With redemption enabled the final price is never negative, and it is never
  negative at all when the base price is not negative. When the computed \<open>dp\<close> is exactly
  1 and the wallet holds at least 2 coins, the final price with redemption is exactly 0.
\<close>

theorem final_price_rounded:
  assumes "getServiceDiscount nw svc (offers s) = d" and "0 \<le> d" and "d \<le> 100"
    and "walletCoinsOr0 (userData s) = w" and "isDouble (svc_price svc)"
  shows "(useCoins s \<longrightarrow>
            totalPrice nw svc s
              = max 0 (fsub (fmul (svc_price svc) (fsub 1 (fdiv d 100)))
                         (fmul (real_of_int
                                  (min w \<lfloor>fdiv (fmul (svc_price svc) (fsub 1 (fdiv d 100))) 0.5\<rfloor>))
                               0.5))
            \<and> 0 \<le> totalPrice nw svc s)
         \<and> (\<not> useCoins s \<longrightarrow>
              totalPrice nw svc s = fmul (svc_price svc) (fsub 1 (fdiv d 100)))
         \<and> (0 \<le> svc_price svc \<longrightarrow> 0 \<le> totalPrice nw svc s)
         \<and> (useCoins s \<and> fmul (svc_price svc) (fsub 1 (fdiv d 100)) = 1 \<and> 2 \<le> w \<longrightarrow>
              totalPrice nw svc s = 0)"
proof -
  let ?dp = "fmul (svc_price svc) (fsub 1 (fdiv d 100))"
  have dp: "getDiscountedPrice nw svc (offers s) = ?dp"
  proof (cases "d = 0")
    case True
    then show ?thesis
      using assms(1) discounted_zero [OF assms(5)] by (simp add: getDiscountedPrice_def)
  next
    case False
    then show ?thesis using assms(1,2) by (simp add: getDiscountedPrice_def)
  qed
  have nn: "0 \<le> svc_price svc \<Longrightarrow> 0 \<le> ?dp"
    using assms(2,3) by (rule discounted_nonneg)
  have one: "?dp = 1 \<Longrightarrow> 2 \<le> w \<Longrightarrow>
      max 0 (fsub ?dp (fmul (real_of_int (min w \<lfloor>fdiv ?dp 0.5\<rfloor>)) 0.5)) = 0"
  proof -
    assume a: "?dp = 1" "2 \<le> w"
    have "fdiv 1 0.5 = 2" using rnd_values(3) by (simp add: fdiv_def)
    then have "min w \<lfloor>fdiv 1 0.5\<rfloor> = 2" using a(2) by simp
    moreover have "fmul 2 0.5 = 1" using rnd_values(2) by (simp add: fmul_def)
    moreover have "fsub 1 1 = 0" using rnd_values(1) by (simp add: fsub_def)
    ultimately show ?thesis unfolding a(1) by simp
  qed
  show ?thesis
    using nn one unfolding totalPrice_def dp assms(4) by auto
qed

text \<open>
  The amended C3 at the two examples of the specification: a price of 1.00 with a wallet of
  100 coins gives exactly 0, and a price of 100 with an offer of 20 percent and a wallet of
  50 coins gives 55.
\<close>

theorem final_price_rounded_witness:
  "isDouble 1 \<and> isDouble 100
   \<and> totalPrice 500 \<lparr>svc_id = ''wash'', svc_price = 1\<rparr>
       ((initialState (Some exampleUser))\<lparr>useCoins := True, userData := Some \<lparr>wallet_coins = 100\<rparr>\<rparr>) = 0
   \<and> totalPrice 500 exampleService
       ((initialState (Some exampleUser))\<lparr>useCoins := True, userData := Some \<lparr>wallet_coins = 50\<rparr>,
          offers := [exampleOffer]\<rparr>) = 55"
proof -
  let ?s1 = "(initialState (Some exampleUser))\<lparr>useCoins := True, userData := Some \<lparr>wallet_coins = 100\<rparr>\<rparr>"
  let ?s2 = "(initialState (Some exampleUser))\<lparr>useCoins := True, userData := Some \<lparr>wallet_coins = 50\<rparr>,
        offers := [exampleOffer]\<rparr>"
  have d1: "getServiceDiscount 500 \<lparr>svc_id = ''wash'', svc_price = 1\<rparr> (offers ?s1) = 0"
    by (simp add: getServiceDiscount_def initialState_def)
  have d2: "getServiceDiscount 500 exampleService (offers ?s2) = 20"
    by (simp add: getServiceDiscount_def initialState_def exampleService_def exampleOffer_def)
  have w1: "walletCoinsOr0 (userData ?s1) = 100" by (simp add: walletCoinsOr0_def)
  have w2: "walletCoinsOr0 (userData ?s2) = 50" by (simp add: walletCoinsOr0_def)
  have u: "useCoins ?s1" "useCoins ?s2" by simp_all
  have i: "isDouble 1" "isDouble 100" by (simp_all add: isDouble_def float_eval)
  have i1: "isDouble (svc_price \<lparr>svc_id = ''wash'', svc_price = 1\<rparr>)" using i(1) by simp
  have i2: "isDouble (svc_price exampleService)" using i(2) by (simp add: exampleService_def)
  have e1: "fmul 1 (fsub 1 (fdiv 0 100)) = 1" by (simp add: float_eval)
  have e2: "max 0 (fsub (fmul 100 (fsub 1 (fdiv 20 100)))
               (fmul (real_of_int (min 50 \<lfloor>fdiv (fmul 100 (fsub 1 (fdiv 20 100))) 0.5\<rfloor>)) 0.5)) = 55"
    by (simp add: float_eval)
  have a: "totalPrice 500 \<lparr>svc_id = ''wash'', svc_price = 1\<rparr> ?s1 = 0"
    using final_price_rounded [OF d1 _ _ w1 i1] u(1) e1 by simp
  have b: "totalPrice 500 exampleService ?s2 = 55"
    using final_price_rounded [OF d2 _ _ w2 i2] u(2) e2 by (simp add: exampleService_def)
  show ?thesis using a b i by simp
qed

text \<open>
  C1 states that the coin count passed to \<^verbatim>\<open>createAppointment\<close> equals the coin count that
  reduced \<^verbatim>\<open>totalPrice\<close>, both computed against the discounted price. The program computes
  the first against the undiscounted price \<^verbatim>\<open>service.price\<close>. For a service of price 100
  with an offer of 20 percent and a wallet of 200 coins, the discounted price is 80, the
  total price is reduced by 160 coins to 0, and 200 coins are passed to
  \<^verbatim>\<open>createAppointment\<close>.
\<close>

theorem debit_ignores_discount:
  "map snd (snd (handleSubmit exampleEnv exampleProps sessionAtConfirm)) = [200]
   \<and> map (\<lambda>c. appt_totalPrice (fst c)) (snd (handleSubmit exampleEnv exampleProps sessionAtConfirm)) = [0]
   \<and> getDiscountedPrice (now exampleEnv) exampleService (offers sessionAtConfirm) = 80
   \<and> min (walletCoinsOr0 (userData sessionAtConfirm))
          \<lfloor>getDiscountedPrice (now exampleEnv) exampleService (offers sessionAtConfirm) / 0.5\<rfloor> = 160
   \<and> coinsToDebit exampleService sessionAtConfirm = 200"
  by (simp add: sessionAtConfirm_eq handleSubmit_def resolveUserId_def detailsMissing_def
      notEnoughCoins_def boolToNumber_def appointmentDataOf_def totalPrice_def coinsToDebit_def
      getDiscountedPrice_def getServiceDiscount_def walletCoinsOr0_def exampleDetails_def
      exampleEnv_def exampleProps_def exampleUser_def exampleService_def exampleOffer_def Let_def
      twenty_percent_of_hundred redeem_from_eighty)

section \<open>Booking flow controller: the step machine\<close>

text \<open>
  C2 states that the signup step is left forward only with a password of at least 6
  characters. The program tests that the password is not empty: with the password
  \<^verbatim>\<open>abc\<close> the forward button is enabled and \<^verbatim>\<open>nextStep\<close> moves from the signup step to the
  confirm step.
\<close>

theorem short_password_accepted:
  "currentStep (guestAtSignup ''aino@example.com'' ''abc'') = StepSignup
   \<and> length (password (customerDetails (guestAtSignup ''aino@example.com'' ''abc''))) < 6
   \<and> currentStep (nextStep (guestAtSignup ''aino@example.com'' ''abc'')) = StepConfirm
   \<and> \<not> nextDisabled (guestAtSignup ''aino@example.com'' ''abc'')"
  by (simp add: guestAtSignup_eq nextStep_def nextDisabled_def exampleDetails_def)

text \<open>
  C7: in every reachable state the session is the one the modal was opened with, and the
  signup step occurs only without a session. From the details step with the five mandatory
  fields filled in, \<^verbatim>\<open>nextStep\<close> goes to the confirm step with a session and to the signup
  step without one (without a session it never goes from the details step to the confirm
  step); from the confirm step \<^verbatim>\<open>prevStep\<close> goes to the details step with a session and to
  the signup step without one.
\<close>

theorem signup_only_without_session:
  assumes "reachable e p u s"
  shows "currentUser s = u
     \<and> (currentStep s = StepSignup \<longrightarrow> u = None)
     \<and> (currentStep s = StepDetails \<and> \<not> detailsMissing (customerDetails s) \<longrightarrow>
          currentStep (nextStep s) = (if u = None then StepSignup else StepConfirm))
     \<and> (currentStep s = StepDetails \<and> u = None \<longrightarrow> currentStep (nextStep s) \<noteq> StepConfirm)
     \<and> (currentStep s = StepConfirm \<longrightarrow>
          currentStep (prevStep s) = (if u = None then StepSignup else StepDetails))"
proof -
  have u: "currentUser s = u" and g: "currentStep s = StepSignup \<longrightarrow> u = None"
    using reachable_inv [OF assms] by simp_all
  show ?thesis
    using u g by (auto simp add: nextStep_def prevStep_def detailsMissing_def)
qed

text \<open>C7 at the example customer, with and without a session.\<close>

theorem signup_only_without_session_witness:
  "reachable exampleEnv exampleProps None (prevStep (guestAtSignup ''aino@example.com'' ''secret1''))
   \<and> currentStep (prevStep (guestAtSignup ''aino@example.com'' ''secret1'')) = StepDetails
   \<and> currentStep (guestAtSignup ''aino@example.com'' ''secret1'') = StepSignup
   \<and> currentStep (prevStep (guestAtConfirm ''aino@example.com'' ''secret1'')) = StepSignup
   \<and> currentStep (prevStep sessionAtConfirm) = StepDetails
   \<and> currentStep (nextStep (prevStep sessionAtConfirm)) = StepConfirm"
proof -
  let ?g = "guestAtSignup ''aino@example.com'' ''secret1''"
  have r1: "reachable exampleEnv exampleProps None (prevStep ?g)"
    using reachable_step [OF reachable_run, of exampleEnv exampleProps None _ EvPrev]
    by (simp add: guestAtSignup_def applyEvent_def)
  have r2: "reachable exampleEnv exampleProps None (guestAtConfirm ''aino@example.com'' ''secret1'')"
    unfolding guestAtConfirm_def by (rule reachable_run)
  have r3: "reachable exampleEnv exampleProps (Some exampleUser) sessionAtConfirm"
    unfolding sessionAtConfirm_def by (rule reachable_run)
  have r4: "reachable exampleEnv exampleProps (Some exampleUser) (prevStep sessionAtConfirm)"
    using reachable_step [OF r3, of EvPrev] by (simp add: applyEvent_def)
  have e: "prevStep ?g = ?g\<lparr>currentStep := StepDetails\<rparr>"
    "nextStep (prevStep ?g) = ?g"
    "currentStep (guestAtConfirm ''aino@example.com'' ''secret1'') = StepConfirm"
    "currentStep sessionAtConfirm = StepConfirm"
    "currentStep (prevStep sessionAtConfirm) = StepDetails"
    "\<not> detailsMissing (customerDetails (prevStep sessionAtConfirm))"
    by (simp_all add: guestAtConfirm_eq guestAtSignup_eq sessionAtConfirm_eq prevStep_def
        nextStep_def exampleDetails_def detailsMissing_def)
  show ?thesis
    using signup_only_without_session [OF r1] signup_only_without_session [OF r2]
      signup_only_without_session [OF r3] signup_only_without_session [OF r4] r1 e
    by (simp add: guestAtSignup_eq exampleDetails_def detailsMissing_def)
qed

section \<open>Submission sequencer: conflicts and validation\<close>

text \<open>
  C8: a submission without session, with a date, a time, the five mandatory fields and a
  password, whose account creation is rejected. When the code of the rejection is
  \<^verbatim>\<open>auth/email-already-in-use\<close>, \<^verbatim>\<open>createAppointment\<close> is not called, the conflict message
  is reported, the login action is shown, and the state is otherwise as before: not loading,
  not complete unless it was, the same step and the same selections. For any other code
  \<^verbatim>\<open>createAppointment\<close> is not called either, and the generic retry message is reported.
\<close>

theorem signup_conflict_recoverable:
  assumes "selectedDate s \<noteq> None" and "selectedTime s \<noteq> []"
    and "\<not> detailsMissing (customerDetails s)"
    and "currentUser s = None" and "password (customerDetails s) \<noteq> []"
    and "signup e (email (customerDetails s)) (password (customerDetails s)) = SignupError code"
  shows "(code = ''auth/email-already-in-use'' \<longrightarrow>
            snd (handleSubmit e p s) = []
            \<and> error (fst (handleSubmit e p s)) = Some MsgEmailInUse
            \<and> showLoginPrompt (fst (handleSubmit e p s))
            \<and> loginActionShown (fst (handleSubmit e p s))
            \<and> \<not> loading (fst (handleSubmit e p s))
            \<and> bookingComplete (fst (handleSubmit e p s)) = bookingComplete s
            \<and> currentStep (fst (handleSubmit e p s)) = currentStep s
            \<and> selectedDate (fst (handleSubmit e p s)) = selectedDate s
            \<and> selectedTime (fst (handleSubmit e p s)) = selectedTime s
            \<and> customerDetails (fst (handleSubmit e p s)) = customerDetails s)
         \<and> (code \<noteq> ''auth/email-already-in-use'' \<longrightarrow>
            snd (handleSubmit e p s) = []
            \<and> error (fst (handleSubmit e p s)) = Some MsgBookingFailed
            \<and> showLoginPrompt (fst (handleSubmit e p s)) = showLoginPrompt s)"
proof -
  obtain d where d: "selectedDate s = Some d" using assms(1) by auto
  have r: "resolveUserId e s = (if code = ''auth/email-already-in-use'' then Conflict else Rejected)"
    using assms(4,5,6) by (simp add: resolveUserId_def)
  show ?thesis
    using assms(2,3) by (simp add: handleSubmit_def d r Let_def loginActionShown_def)
qed

text \<open>
  C8 at the example collaborators, which know the address \<^verbatim>\<open>taken@example.com\<close> and reject
  passwords shorter than 6 characters with another code.
\<close>

theorem signup_conflict_recoverable_witness:
  "snd (handleSubmit exampleEnv exampleProps (guestAtConfirm ''taken@example.com'' ''secret1'')) = []
   \<and> error (fst (handleSubmit exampleEnv exampleProps (guestAtConfirm ''taken@example.com'' ''secret1'')))
       = Some MsgEmailInUse
   \<and> loginActionShown (fst (handleSubmit exampleEnv exampleProps (guestAtConfirm ''taken@example.com'' ''secret1'')))
   \<and> error (fst (handleSubmit exampleEnv exampleProps (guestAtConfirm ''aino@example.com'' ''abc'')))
       = Some MsgBookingFailed"
proof -
  let ?s = "guestAtConfirm ''taken@example.com'' ''secret1''"
  let ?t = "guestAtConfirm ''aino@example.com'' ''abc''"
  have s: "selectedDate ?s \<noteq> None" "selectedTime ?s \<noteq> []" "\<not> detailsMissing (customerDetails ?s)"
    "currentUser ?s = None" "password (customerDetails ?s) \<noteq> []"
    "signup exampleEnv (email (customerDetails ?s)) (password (customerDetails ?s))
       = SignupError ''auth/email-already-in-use''"
    by (simp_all add: guestAtConfirm_eq guestAtSignup_eq nextStep_def exampleDetails_def
        detailsMissing_def exampleEnv_def)
  have t: "selectedDate ?t \<noteq> None" "selectedTime ?t \<noteq> []" "\<not> detailsMissing (customerDetails ?t)"
    "currentUser ?t = None" "password (customerDetails ?t) \<noteq> []"
    "signup exampleEnv (email (customerDetails ?t)) (password (customerDetails ?t))
       = SignupError ''auth/weak-password''"
    by (simp_all add: guestAtConfirm_eq guestAtSignup_eq nextStep_def exampleDetails_def
        detailsMissing_def exampleEnv_def)
  show ?thesis
    using signup_conflict_recoverable [OF s, of exampleProps]
      signup_conflict_recoverable [OF t, of exampleProps]
    by simp
qed

text \<open>
  C9: in a submission that reaches the coin validation (a date, a time, the five mandatory
  fields and a resolved, non-empty customer id) with redemption enabled, the message
  \<^verbatim>\<open>'Ei tarpeeksi kolikoita'\<close> is reported exactly when the wallet data is absent or the
  wallet holds zero coins, and then no appointment is created. For every wallet holding at
  least one coin the validation passes and \<^verbatim>\<open>createAppointment\<close> is called once, whatever
  the number of coins that the redemption formula passes to it: the boolean toggle is
  compared, as the number 1, with the balance.
\<close>

theorem coin_validation_compares_toggle:
  assumes "selectedDate s \<noteq> None" and "selectedTime s \<noteq> []"
    and "\<not> detailsMissing (customerDetails s)"
    and "resolveUserId e s = Resolved (Some userId)" and "userId \<noteq> []"
    and "useCoins s"
  shows "(error (fst (handleSubmit e p s)) = Some MsgNotEnoughCoins)
           = (case userData s of None \<Rightarrow> True | Some u \<Rightarrow> wallet_coins u = 0)
         \<and> ((case userData s of None \<Rightarrow> True | Some u \<Rightarrow> wallet_coins u = 0) \<longrightarrow>
              snd (handleSubmit e p s) = [])
         \<and> ((case userData s of None \<Rightarrow> False | Some u \<Rightarrow> 1 \<le> wallet_coins u) \<longrightarrow>
              map snd (snd (handleSubmit e p s))
                = [min (walletCoinsOr0 (userData s)) \<lfloor>svc_price (service p) / 0.5\<rfloor>])"
proof -
  obtain d where d: "selectedDate s = Some d" using assms(1) by auto
  have n: "notEnoughCoins s = (case userData s of None \<Rightarrow> True | Some u \<Rightarrow> wallet_coins u = 0)"
    using assms(6) by (auto simp add: notEnoughCoins_def boolToNumber_def split: option.split)
  show ?thesis
  proof (cases "notEnoughCoins s")
    case True
    then show ?thesis
      using assms(2,3,5) n
      by (auto simp add: handleSubmit_def d assms(4) Let_def split: option.splits)
  next
    case False
    then show ?thesis
      using assms(2,3,5,6) n
      by (auto simp add: handleSubmit_def d assms(4) Let_def coinsToDebit_def split: option.splits)
  qed
qed

text \<open>C9 at the signed-in example customer, with a wallet of 200 coins, of no coins, and
  without wallet data.\<close>

theorem coin_validation_compares_toggle_witness:
  "useCoins sessionAtConfirm
   \<and> userData sessionAtConfirm = Some \<lparr>wallet_coins = 200\<rparr>
   \<and> error (fst (handleSubmit exampleEnv exampleProps sessionAtConfirm)) \<noteq> Some MsgNotEnoughCoins
   \<and> map snd (snd (handleSubmit exampleEnv exampleProps sessionAtConfirm)) = [200]
   \<and> error (fst (handleSubmit exampleEnv exampleProps (sessionAtConfirm\<lparr>userData := Some \<lparr>wallet_coins = 0\<rparr>\<rparr>)))
        = Some MsgNotEnoughCoins
   \<and> error (fst (handleSubmit exampleEnv exampleProps (sessionAtConfirm\<lparr>userData := None\<rparr>)))
        = Some MsgNotEnoughCoins"
proof -
  let ?s = sessionAtConfirm
  let ?z = "sessionAtConfirm\<lparr>userData := Some \<lparr>wallet_coins = 0\<rparr>\<rparr>"
  let ?n = "sessionAtConfirm\<lparr>userData := None\<rparr>"
  have s: "selectedDate ?s \<noteq> None" "selectedTime ?s \<noteq> []" "\<not> detailsMissing (customerDetails ?s)"
    "resolveUserId exampleEnv ?s = Resolved (Some ''u1'')" "''u1'' \<noteq> []" "useCoins ?s"
    by (simp_all add: sessionAtConfirm_eq exampleDetails_def detailsMissing_def resolveUserId_def
        exampleUser_def)
  have z: "selectedDate ?z \<noteq> None" "selectedTime ?z \<noteq> []" "\<not> detailsMissing (customerDetails ?z)"
    "resolveUserId exampleEnv ?z = Resolved (Some ''u1'')" "''u1'' \<noteq> []" "useCoins ?z"
    by (simp_all add: sessionAtConfirm_eq exampleDetails_def detailsMissing_def resolveUserId_def
        exampleUser_def)
  have n: "selectedDate ?n \<noteq> None" "selectedTime ?n \<noteq> []" "\<not> detailsMissing (customerDetails ?n)"
    "resolveUserId exampleEnv ?n = Resolved (Some ''u1'')" "''u1'' \<noteq> []" "useCoins ?n"
    by (simp_all add: sessionAtConfirm_eq exampleDetails_def detailsMissing_def resolveUserId_def
        exampleUser_def)
  have v: "userData ?s = Some \<lparr>wallet_coins = 200\<rparr>" "svc_price (service exampleProps) = 100"
    by (simp_all add: sessionAtConfirm_eq exampleProps_def exampleService_def)
  show ?thesis
    using coin_validation_compares_toggle [OF s, of exampleProps]
      coin_validation_compares_toggle [OF z, of exampleProps]
      coin_validation_compares_toggle [OF n, of exampleProps] s(6) v
    by (simp add: walletCoinsOr0_def)
qed

text \<open>
  C10: in every state that a modal opened without a session can reach, whatever offers the
  persistence layer holds, the offer list is empty and the resolved discount is 0; every
  appointment that a submission from such a state passes to \<^verbatim>\<open>createAppointment\<close> has the
  undiscounted base price of the service as its total price.
\<close>

theorem no_session_no_discount:
  assumes "reachable e p None s"
  shows "offers s = []
         \<and> getServiceDiscount (now e) (service p) (offers s) = 0
         \<and> (\<forall>c \<in> set (snd (handleSubmit e p s)).
               appt_totalPrice (fst c) = svc_price (service p))"
proof -
  have i: "offers s = []" "userData s = None" using reachable_inv [OF assms] by simp_all
  have d: "getServiceDiscount (now e) (service p) (offers s) = 0"
    by (simp add: i getServiceDiscount_def)
  have t: "\<not> useCoins s \<Longrightarrow> totalPrice (now e) (service p) s = svc_price (service p)"
    by (simp add: totalPrice_def getDiscountedPrice_def d)
  have n: "useCoins s \<Longrightarrow> notEnoughCoins s" by (simp add: notEnoughCoins_def i)
  have "\<forall>c \<in> set (snd (handleSubmit e p s)). appt_totalPrice (fst c) = svc_price (service p)"
    using t n
    by (auto simp add: handleSubmit_def Let_def appointmentDataOf_def
        split: option.splits Identity.splits if_splits)
  then show ?thesis using i d by simp
qed

text \<open>
  C10 at the example customer without session: the vendor has an active offer of 20 percent
  whose window contains the current instant, and the appointment is created at the price 100.
\<close>

theorem no_session_no_discount_witness:
  "reachable exampleEnv exampleProps None (guestAtConfirm ''aino@example.com'' ''secret1'')
   \<and> getServiceDiscount (now exampleEnv) (service exampleProps)
        (filter active (getVendorOffers exampleEnv (vendorId exampleProps))) = 20
   \<and> map (\<lambda>c. appt_totalPrice (fst c))
        (snd (handleSubmit exampleEnv exampleProps (guestAtConfirm ''aino@example.com'' ''secret1'')))
       = [100]"
proof -
  let ?s = "guestAtConfirm ''aino@example.com'' ''secret1''"
  have r: "reachable exampleEnv exampleProps None ?s"
    unfolding guestAtConfirm_def by (rule reachable_run)
  have o: "getServiceDiscount (now exampleEnv) (service exampleProps)
        (filter active (getVendorOffers exampleEnv (vendorId exampleProps))) = 20"
    by (simp add: getServiceDiscount_def exampleEnv_def exampleProps_def exampleService_def
        exampleOffer_def)
  have c: "length (snd (handleSubmit exampleEnv exampleProps ?s)) = 1"
    by (simp add: guestAtConfirm_eq guestAtSignup_eq nextStep_def exampleDetails_def
        handleSubmit_def detailsMissing_def resolveUserId_def notEnoughCoins_def exampleEnv_def
        Let_def)
  then obtain a where a: "snd (handleSubmit exampleEnv exampleProps ?s) = [a]"
    by (cases "snd (handleSubmit exampleEnv exampleProps ?s)") auto
  have p: "svc_price (service exampleProps) = 100"
    by (simp add: exampleProps_def exampleService_def)
  show ?thesis
    using no_session_no_discount [OF r] r o a p by simp
qed

end
